theory Spec2Isabelle
  imports Main
begin

section \<open>Text\<close>

text \<open>
  A Python \<open>str\<close> is modelled as a \<open>string\<close>: the bytes of its UTF-8 encoding. White space
  and letter case are the ASCII ones (the characters for which \<open>str.isspace\<close> holds below
  U+0080, and \<open>A\<close>..\<open>Z\<close>); the non-ASCII characters that the generated markup contains
  are written as their UTF-8 bytes.
\<close>

definition isspace :: "char \<Rightarrow> bool" where
  "isspace c = (c \<in> set [CHR 0x09, CHR 0x0A, CHR 0x0B, CHR 0x0C, CHR 0x0D,
                           CHR 0x1C, CHR 0x1D, CHR 0x1E, CHR 0x1F, CHR 0x20])"

definition lower_char :: "char \<Rightarrow> char" where
  "lower_char c =
     (case map_of (zip ''ABCDEFGHIJKLMNOPQRSTUVWXYZ'' ''abcdefghijklmnopqrstuvwxyz'') c of
        None \<Rightarrow> c
      | Some l \<Rightarrow> l)"

definition lower :: "string \<Rightarrow> string" where
  "lower s = map lower_char s"

definition strip :: "string \<Rightarrow> string" where
  "strip s = rev (dropWhile isspace (rev (dropWhile isspace s)))"

definition startswith :: "string \<Rightarrow> string \<Rightarrow> bool" where
  "startswith s p = (take (length p) s = p)"

fun contains :: "string \<Rightarrow> string \<Rightarrow> bool" where
  "contains sub [] = (sub = [])"
| "contains sub (c # t) = (startswith (c # t) sub \<or> contains sub t)"

fun join :: "string \<Rightarrow> string list \<Rightarrow> string" where
  "join sep [] = []"
| "join sep [x] = x"
| "join sep (x # y # xs) = x @ sep @ join sep (y # xs)"

section \<open>Manifest values and errors\<close>

text \<open>
  What \<open>json.loads\<close> returns. A number is an integer; an object is its list of key and
  value pairs, looked up by key.
\<close>

datatype json =
    JNull
  | JBool bool
  | JNum int
  | JStr string
  | JArr "json list"
  | JObj "(string \<times> json) list"

fun truthy :: "json \<Rightarrow> bool" where
  "truthy JNull = False"
| "truthy (JBool b) = b"
| "truthy (JNum n) = (n \<noteq> 0)"
| "truthy (JStr s) = (s \<noteq> [])"
| "truthy (JArr xs) = (xs \<noteq> [])"
| "truthy (JObj kvs) = (kvs \<noteq> [])"

definition dict_get :: "(string \<times> json) list \<Rightarrow> string \<Rightarrow> json" where
  "dict_get d k = (case map_of d k of None \<Rightarrow> JNull | Some v \<Rightarrow> v)"

text \<open>
  Every way the build stops. The first six are the \<open>SystemExit\<close> messages of the source,
  each with the value its message shows; the others are exceptions that the source does
  not catch.
\<close>

datatype error =
    Invalid_script_entry json
  | Unknown_slide_math string
  | No_slides
  | Missing_slide_file string
  | Missing_footer "string list"
  | Missing_main string
  | Attribute_error
  | Re_error
  | Index_error
  | File_not_found "string list"

section \<open>Math engine selection\<close>

text \<open>\<open>(x or "")\<close> followed by a string method: a true value that is no string has none.\<close>

fun or_empty :: "json \<Rightarrow> error + string" where
  "or_empty (JStr s) = Inr s"
| "or_empty v = (if truthy v then Inl Attribute_error else Inr [])"

definition choose_slide_math_engine ::
  "(string \<times> json) list \<Rightarrow> string option \<Rightarrow> error + string" where
  "choose_slide_math_engine deck_math_cfg slide_math =
     (let sm = lower (strip (case slide_math of None \<Rightarrow> [] | Some m \<Rightarrow> m)) in
      if sm \<noteq> [] then
        (if sm \<in> set [''none'', ''off'', ''false'', ''0''] then Inr []
         else if sm \<in> set [''katex'', ''tex''] then Inr ''katex''
         else if sm \<in> set [''mathjax'', ''mj''] then Inr ''mathjax''
         else Inl (Unknown_slide_math (case slide_math of None \<Rightarrow> [] | Some m \<Rightarrow> m)))
      else
        (case or_empty (dict_get deck_math_cfg ''engine'') of
           Inl e \<Rightarrow> Inl e
         | Inr raw \<Rightarrow>
             (let deck_engine = lower (strip raw) in
              if deck_engine \<in> set [''katex'', ''tex''] then Inr ''katex''
              else if deck_engine \<in> set [''mathjax'', ''mj''] then Inr ''mathjax''
              else Inr [])))"

section \<open>The slide model\<close>

text \<open>
  The fields \<open>defer\<close> and \<open>async_\<close> of the source are \<open>defer_attr\<close> and \<open>async_attr\<close>
  here. The field \<open>type\<close> holds whatever the manifest gives (\<open>JNull\<close> when absent).
\<close>

record ScriptSpec =
  src :: string
  type :: json
  defer_attr :: bool
  async_attr :: bool

text \<open>The field \<open>file\<close> of the source is \<open>slide_file\<close> here.\<close>

record Slide =
  slide_file :: string
  title :: string
  math :: "string option"
  scripts :: "ScriptSpec list"

definition math_or_empty :: "Slide \<Rightarrow> string" where
  "math_or_empty s = (case math s of None \<Rightarrow> [] | Some m \<Rightarrow> m)"

definition choose_print_math_engine ::
  "(string \<times> json) list \<Rightarrow> Slide list \<Rightarrow> error + string" where
  "choose_print_math_engine deck_math_cfg slides =
     (case or_empty (dict_get deck_math_cfg ''engine'') of
        Inl e \<Rightarrow> Inl e
      | Inr raw \<Rightarrow>
          (let deck_engine = strip (lower raw);
               any_mathjax =
                 list_ex (\<lambda>s. strip (lower (math_or_empty s)) \<in> set [''mathjax'', ''mj'']) slides
           in if any_mathjax \<or> deck_engine \<in> set [''mathjax'', ''mj''] then Inr ''mathjax''
              else if deck_engine \<in> set [''katex'', ''tex''] then Inr ''katex''
              else Inr []))"

text \<open>The \<open>math_script\<close> line of the print page, for the engine chosen.\<close>

definition print_math_script :: "string \<Rightarrow> string" where
  \<open>print_math_script engine =
     (if engine = ''katex'' then ''  <script defer src="assets/math-katex-setup.js"></script>\<newline>''
      else if engine = ''mathjax'' then ''  <script defer src="assets/math-mathjax-setup.js"></script>\<newline>''
      else [])\<close>

section \<open>Numbers and values as text\<close>

function dec_nat :: "nat \<Rightarrow> string" where
  "dec_nat n = (if n < 10 then [char_of (48 + n)] else dec_nat (n div 10) @ [char_of (48 + n mod 10)])"
  by pat_completeness auto
termination
  by (relation "measure id") auto

definition dec_int :: "int \<Rightarrow> string" where
  "dec_int i = (if i < 0 then CHR ''-'' # dec_nat (nat (- i)) else dec_nat (nat i))"

text \<open>\<open>repr\<close> of a string: the quote is chosen as Python chooses it, and the control
  characters are escaped.\<close>

definition hex_digit :: "nat \<Rightarrow> char" where
  "hex_digit d = (if d < 10 then char_of (48 + d) else char_of (87 + d))"

definition repr_char :: "char \<Rightarrow> char \<Rightarrow> string" where
  "repr_char q c =
     (let n = (of_char c :: nat) in
      if c = q \<or> c = CHR 0x5C then [CHR 0x5C, c]
      else if c = CHR 0x09 then [CHR 0x5C, CHR ''t'']
      else if c = CHR 0x0A then [CHR 0x5C, CHR ''n'']
      else if c = CHR 0x0D then [CHR 0x5C, CHR ''r'']
      else if n < 32 \<or> n = 127 then [CHR 0x5C, CHR ''x'', hex_digit (n div 16), hex_digit (n mod 16)]
      else [c])"

definition repr_str :: "string \<Rightarrow> string" where
  "repr_str s =
     (let q = (if CHR 0x27 \<in> set s \<and> CHR 0x22 \<notin> set s then CHR 0x22 else CHR 0x27)
      in [q] @ concat (map (repr_char q) s) @ [q])"

fun repr :: "json \<Rightarrow> string" where
  "repr JNull = ''None''"
| "repr (JBool b) = (if b then ''True'' else ''False'')"
| "repr (JNum n) = dec_int n"
| "repr (JStr s) = repr_str s"
| "repr (JArr xs) = ''['' @ join '', '' (map repr xs) @ '']''"
| "repr (JObj kvs) =
     ''{'' @ join '', '' (map (\<lambda>kv. repr_str (fst kv) @ '': '' @ repr (snd kv)) kvs) @ ''}''"

text \<open>\<open>str\<close>, as an f-string field formats a value.\<close>

fun str :: "json \<Rightarrow> string" where
  "str (JStr s) = s"
| "str v = repr v"

section \<open>Paths\<close>

text \<open>
  A \<open>Path\<close> of the program is absolute, since each is made from \<open>ROOT\<close>, the resolved
  directory of the script: it is modelled as the list of its parts below the root \<open>/\<close>
  (a root of two slashes counts as one). \<open>ROOT\<close> itself is a parameter, \<open>root\<close>.
\<close>

type_synonym path = "string list"

fun split_on :: "char \<Rightarrow> string \<Rightarrow> string list" where
  "split_on c [] = [[]]"
| "split_on c (x # xs) =
     (if x = c then [] # split_on c xs
      else (case split_on c xs of [] \<Rightarrow> [[x]] | y # ys \<Rightarrow> (x # y) # ys))"

definition parts :: "string \<Rightarrow> path" where
  "parts s = filter (\<lambda>p. p \<noteq> [] \<and> p \<noteq> ''.'') (split_on CHR ''/'' s)"

text \<open>\<open>p / s\<close>: an absolute right operand replaces the left one.\<close>

definition path_div :: "path \<Rightarrow> string \<Rightarrow> path" where
  "path_div p s = (if startswith s ''/'' then parts s else p @ parts s)"

definition parent :: "path \<Rightarrow> path" where
  "parent p = butlast p"

definition as_posix :: "path \<Rightarrow> string" where
  "as_posix p = ''/'' @ join ''/'' p"

fun norm_comps :: "bool \<Rightarrow> string list \<Rightarrow> string list \<Rightarrow> string list" where
  "norm_comps rooted new_comps [] = new_comps"
| "norm_comps rooted new_comps (c # comps) =
     (if c = [] \<or> c = ''.'' then norm_comps rooted new_comps comps
      else if c \<noteq> ''..'' \<or> (\<not> rooted \<and> new_comps = [])
              \<or> (new_comps \<noteq> [] \<and> last new_comps = ''..'')
        then norm_comps rooted (new_comps @ [c]) comps
      else norm_comps rooted (butlast new_comps) comps)"

definition normpath :: "string \<Rightarrow> string" where
  "normpath p =
     (if p = [] then ''.''
      else
        let initial_slashes =
              (if startswith p ''//'' \<and> \<not> startswith p ''///'' then 2
               else if startswith p ''/'' then 1 else (0::nat));
            r = replicate initial_slashes CHR ''/''
                @ join ''/'' (norm_comps (initial_slashes \<noteq> 0) [] (split_on CHR ''/'' p))
        in if r = [] then ''.'' else r)"

text \<open>\<open>posixpath.join\<close> of two strings.\<close>

definition posix_join :: "string \<Rightarrow> string \<Rightarrow> string" where
  "posix_join a b =
     (if startswith b ''/'' then b
      else if a = [] \<or> last a = CHR ''/'' then a @ b
      else a @ ''/'' @ b)"

fun commonprefix :: "string list \<Rightarrow> string list \<Rightarrow> string list" where
  "commonprefix (x # xs) (y # ys) = (if x = y then x # commonprefix xs ys else [])"
| "commonprefix _ _ = []"

text \<open>\<open>posixpath.relpath\<close> of two absolute paths (so that \<open>abspath\<close> is \<open>normpath\<close>).\<close>

definition relpath :: "string \<Rightarrow> string \<Rightarrow> string" where
  "relpath p start =
     (let start_list = filter (\<lambda>x. x \<noteq> []) (split_on CHR ''/'' (normpath start));
          path_list = filter (\<lambda>x. x \<noteq> []) (split_on CHR ''/'' (normpath p));
          i = length (commonprefix start_list path_list);
          rel_list = replicate (length start_list - i) ''..'' @ drop i path_list
      in if rel_list = [] then ''.'' else join ''/'' rel_list)"

definition rel_href :: "path \<Rightarrow> path \<Rightarrow> string" where
  "rel_href from_path to_path = relpath (as_posix to_path) (as_posix (parent from_path))"


section \<open>Script tags\<close>

definition ABS_PREFIXES :: "string list" where
  "ABS_PREFIXES = [''http://'', ''https://'', ''data:'', ''/'', ''#'', ''mailto:'', ''tel:'']"

definition resolve_script_src :: "path \<Rightarrow> path \<Rightarrow> string \<Rightarrow> string" where
  "resolve_script_src root slide_path src_text =
     (let s = strip src_text in
      if s = [] then s
      else if list_ex (startswith s) ABS_PREFIXES \<or> startswith s ''./'' \<or> startswith s ''../''
        then s
      else if CHR ''/'' \<in> set s then rel_href slide_path (path_div root s)
      else ''./'' @ s)"

definition script_tag :: "path \<Rightarrow> ScriptSpec \<Rightarrow> path \<Rightarrow> string" where
  \<open>script_tag root spec slide_path =
     (let attrs =
            [''src="'' @ resolve_script_src root slide_path (src spec) @ ''"'']
            @ (if truthy (type spec) then [''type="'' @ str (type spec) @ ''"''] else [])
            @ (if defer_attr spec then [''defer''] else [])
            @ (if async_attr spec then [''async''] else [])
      in ''<script '' @ join '' '' attrs @ ''></script>'')\<close>

definition AUTO_SCRIPTS_BEGIN :: string where
  "AUTO_SCRIPTS_BEGIN = ''<!-- AUTO-SCRIPTS:BEGIN -->''"

definition AUTO_SCRIPTS_END :: string where
  "AUTO_SCRIPTS_END = ''<!-- AUTO-SCRIPTS:END -->''"

text \<open>The list \<open>tags\<close> that \<open>build_auto_scripts_block\<close> collects, and the block made of it.\<close>

definition auto_script_tags ::
  "path \<Rightarrow> path \<Rightarrow> (string \<times> json) list \<Rightarrow> Slide \<Rightarrow> error + string list" where
  \<open>auto_script_tags root slide_path deck_math_cfg slide =
     (case choose_slide_math_engine deck_math_cfg (math slide) of
        Inl e \<Rightarrow> Inl e
      | Inr engine \<Rightarrow>
          Inr ((if engine = ''katex''
                  then [''<script src="''
                        @ rel_href slide_path (root @ [''assets'', ''math-katex-setup.js''])
                        @ ''"></script>'']
                else if engine = ''mathjax''
                  then [''<script src="''
                        @ rel_href slide_path (root @ [''assets'', ''math-mathjax-setup.js''])
                        @ ''"></script>'']
                else [])
               @ map (\<lambda>sp. script_tag root sp slide_path) (scripts slide)))\<close>

definition block_of_tags :: "string list \<Rightarrow> string" where
  "block_of_tags tags =
     AUTO_SCRIPTS_BEGIN @ ''\<newline>    '' @ (if tags \<noteq> [] then join ''\<newline>    '' tags else [])
       @ ''\<newline>    '' @ AUTO_SCRIPTS_END"

definition build_auto_scripts_block ::
  "path \<Rightarrow> path \<Rightarrow> (string \<times> json) list \<Rightarrow> Slide \<Rightarrow> error + string" where
  "build_auto_scripts_block root slide_path deck_math_cfg slide =
     (case auto_script_tags root slide_path deck_math_cfg slide of
        Inl e \<Rightarrow> Inl e
      | Inr tags \<Rightarrow> Inr (block_of_tags tags))"

section \<open>Script declarations of a slide entry\<close>

text \<open>The value \<open>raw\<close> of \<open>normalize_scripts\<close>, once it is a list.\<close>

definition raw_scripts :: "(string \<times> json) list \<Rightarrow> json list" where
  "raw_scripts item =
     (if dict_get item ''scripts'' \<noteq> JNull
        then (case dict_get item ''scripts'' of JArr xs \<Rightarrow> xs | v \<Rightarrow> [v])
      else if truthy (dict_get item ''script'') then [dict_get item ''script'']
      else [])"

fun script_entry :: "json \<Rightarrow> error + ScriptSpec" where
  "script_entry (JStr s) =
     Inr \<lparr>src = s, type = JNull, defer_attr = False, async_attr = False\<rparr>"
| "script_entry (JObj kvs) =
     (case dict_get kvs ''src'' of
        JStr s \<Rightarrow>
          Inr \<lparr>src = s, type = dict_get kvs ''type'',
               defer_attr = truthy (dict_get kvs ''defer''),
               async_attr = truthy (dict_get kvs ''async'')\<rparr>
      | _ \<Rightarrow> Inl (Invalid_script_entry (JObj kvs)))"
| "script_entry v = Inl (Invalid_script_entry v)"

fun script_entries :: "json list \<Rightarrow> error + ScriptSpec list" where
  "script_entries [] = Inr []"
| "script_entries (entry # rest) =
     (case script_entry entry of
        Inl e \<Rightarrow> Inl e
      | Inr sp \<Rightarrow>
          (case script_entries rest of Inl e \<Rightarrow> Inl e | Inr out \<Rightarrow> Inr (sp # out)))"

definition normalize_scripts :: "(string \<times> json) list \<Rightarrow> error + ScriptSpec list" where
  "normalize_scripts item = script_entries (raw_scripts item)"

text \<open>
  The entries that the specification admits: a bare string, or an object whose \<open>src\<close> is a
  string.
\<close>

fun valid_entry :: "json \<Rightarrow> bool" where
  "valid_entry (JStr s) = True"
| "valid_entry (JObj kvs) = (case dict_get kvs ''src'' of JStr s \<Rightarrow> True | _ \<Rightarrow> False)"
| "valid_entry v = False"

section \<open>Regular expressions\<close>

text \<open>
  The patterns of the program use literals, three character classes, greedy and lazy
  repetition of a class, word boundaries, alternation and an optional group. A pattern is
  matched as \<open>re\<close> matches it: by backtracking, trying the alternatives in order of
  preference, so that the first complete match found is the match. All patterns are
  compiled with \<open>re.IGNORECASE\<close>: a literal is compared letter by letter in lower case.
  A word character is an ASCII letter, a digit or the underscore.
\<close>

datatype cls = Not_char char | Space | Any

fun in_cls :: "cls \<Rightarrow> char \<Rightarrow> bool" where
  "in_cls (Not_char x) c = (c \<noteq> x)"
| "in_cls Space c = isspace c"
| "in_cls Any c = True"

datatype re =
    Eps
  | Lit string
  | One cls
  | Star cls
  | Plus cls
  | Lazy cls
  | Wordb
  | Seq re re
  | Alt re re
  | Opt re

definition is_word :: "char \<Rightarrow> bool" where
  "is_word c =
     (c \<in> set ''abcdefghijklmnopqrstuvwxyzABCDEFGHIJKLMNOPQRSTUVWXYZ0123456789_'')"

definition word_at :: "char option \<Rightarrow> bool" where
  "word_at c = (case c of None \<Rightarrow> False | Some x \<Rightarrow> is_word x)"

definition next_char :: "string \<Rightarrow> char option" where
  "next_char s = (case s of [] \<Rightarrow> None | x # _ \<Rightarrow> Some x)"

definition ci_eq :: "char \<Rightarrow> char \<Rightarrow> bool" where
  "ci_eq a b = (if a = b then True else lower_char a = lower_char b)"

text \<open>
  A matcher reads the text \<open>s\<close> that follows the character \<open>prev\<close>, adds what it consumes
  to \<open>acc\<close> (the text consumed so far, last character first), and hands what is left to
  the continuation \<open>k\<close>; when \<open>k\<close> fails, it tries its next alternative.
\<close>

fun lit ::
  "string \<Rightarrow> string \<Rightarrow> char option \<Rightarrow> string \<Rightarrow>
   (string \<Rightarrow> char option \<Rightarrow> string \<Rightarrow> 'a option) \<Rightarrow> 'a option" where
  "lit [] acc prev s k = k acc prev s"
| "lit (a # l) acc prev [] k = None"
| "lit (a # l) acc prev (x # t) k = (if ci_eq x a then lit l (x # acc) (Some x) t k else None)"

fun star ::
  "cls \<Rightarrow> string \<Rightarrow> char option \<Rightarrow> string \<Rightarrow>
   (string \<Rightarrow> char option \<Rightarrow> string \<Rightarrow> 'a option) \<Rightarrow> 'a option" where
  "star c acc prev [] k = k acc prev []"
| "star c acc prev (x # t) k =
     (if in_cls c x
        then (case star c (x # acc) (Some x) t k of
                Some r \<Rightarrow> Some r
              | None \<Rightarrow> k acc prev (x # t))
      else k acc prev (x # t))"

fun lazy ::
  "cls \<Rightarrow> string \<Rightarrow> char option \<Rightarrow> string \<Rightarrow>
   (string \<Rightarrow> char option \<Rightarrow> string \<Rightarrow> 'a option) \<Rightarrow> 'a option" where
  "lazy c acc prev [] k = k acc prev []"
| "lazy c acc prev (x # t) k =
     (case k acc prev (x # t) of
        Some r \<Rightarrow> Some r
      | None \<Rightarrow> if in_cls c x then lazy c (x # acc) (Some x) t k else None)"

fun mk ::
  "re \<Rightarrow> string \<Rightarrow> char option \<Rightarrow> string \<Rightarrow>
   (string \<Rightarrow> char option \<Rightarrow> string \<Rightarrow> 'a option) \<Rightarrow> 'a option" where
  "mk Eps acc prev s k = k acc prev s"
| "mk (Lit l) acc prev s k = lit l acc prev s k"
| "mk (One c) acc prev s k =
     (case s of [] \<Rightarrow> None | x # t \<Rightarrow> if in_cls c x then k (x # acc) (Some x) t else None)"
| "mk (Star c) acc prev s k = star c acc prev s k"
| "mk (Plus c) acc prev s k =
     (case s of [] \<Rightarrow> None | x # t \<Rightarrow> if in_cls c x then star c (x # acc) (Some x) t k else None)"
| "mk (Lazy c) acc prev s k = lazy c acc prev s k"
| "mk Wordb acc prev s k = (if word_at prev \<noteq> word_at (next_char s) then k acc prev s else None)"
| "mk (Seq a b) acc prev s k = mk a acc prev s (\<lambda>acc' prev' s'. mk b acc' prev' s' k)"
| "mk (Alt a b) acc prev s k =
     (case mk a acc prev s k of Some r \<Rightarrow> Some r | None \<Rightarrow> mk b acc prev s k)"
| "mk (Opt a) acc prev s k =
     (case mk a acc prev s k of Some r \<Rightarrow> Some r | None \<Rightarrow> k acc prev s)"

fun seq :: "re list \<Rightarrow> re" where
  "seq [] = Eps"
| "seq [r] = r"
| "seq (r # rs) = Seq r (seq rs)"

text \<open>
  A pattern is a list of parts, matched one after the other. A match is the text of each
  part (which is how the groups of a pattern are read), with the last character read and
  the text left after the match.
\<close>

type_synonym found = "string list \<times> char option \<times> string"

fun match_parts :: "re list \<Rightarrow> char option \<Rightarrow> string \<Rightarrow> found option" where
  "match_parts [] prev s = Some ([], prev, s)"
| "match_parts (r # rs) prev s =
     mk r [] prev s
       (\<lambda>acc prev' s'.
          case match_parts rs prev' s' of
            None \<Rightarrow> None
          | Some (gs, last_char, rest) \<Rightarrow> Some (rev acc # gs, last_char, rest))"

text \<open>\<open>search\<close>: the leftmost match, with the text before it.\<close>

fun search :: "re list \<Rightarrow> char option \<Rightarrow> string \<Rightarrow> (string \<times> found) option" where
  "search rs prev [] =
     (case match_parts rs prev [] of None \<Rightarrow> None | Some m \<Rightarrow> Some ([], m))"
| "search rs prev (c # t) =
     (case match_parts rs prev (c # t) of
        Some m \<Rightarrow> Some ([], m)
      | None \<Rightarrow>
          (case search rs (Some c) t of
             None \<Rightarrow> None
           | Some (before, m) \<Rightarrow> Some (c # before, m)))"

section \<open>Substitution\<close>

text \<open>
  A match found in a text is a stretch of that text: the text before it, the parts and
  the rest make up the text searched. This is what makes the loop of \<open>sub\<close> terminate.
\<close>

lemma lit_sound:
  "lit l acc p s k = Some x \<Longrightarrow> \<exists>acc' p' s'. k acc' p' s' = Some x \<and> rev acc' @ s' = rev acc @ s"
proof (induction l acc p s k rule: lit.induct)
  case (1 acc prev s k) then show ?case by auto
next
  case (2 a l acc prev k) then show ?case by simp
next
  case (3 a l acc prev x t k)
  then show ?case by (auto split: if_splits)
qed

lemma star_sound:
  "star c acc p s k = Some x \<Longrightarrow> \<exists>acc' p' s'. k acc' p' s' = Some x \<and> rev acc' @ s' = rev acc @ s"
proof (induction c acc p s k rule: star.induct)
  case (1 c acc prev k) then show ?case by auto
next
  case (2 c acc prev x t k)
  then show ?case by (auto split: if_splits option.splits)
qed

lemma lazy_sound:
  "lazy c acc p s k = Some x \<Longrightarrow> \<exists>acc' p' s'. k acc' p' s' = Some x \<and> rev acc' @ s' = rev acc @ s"
proof (induction c acc p s k rule: lazy.induct)
  case (1 c acc prev k) then show ?case by auto
next
  case (2 c acc prev x t k)
  then show ?case by (auto split: if_splits option.splits)
qed

lemma mk_sound:
  "mk r acc p s k = Some x \<Longrightarrow> \<exists>acc' p' s'. k acc' p' s' = Some x \<and> rev acc' @ s' = rev acc @ s"
proof (induction r arbitrary: acc p s k)
  case Eps then show ?case by auto
next
  case (Lit l) then show ?case using lit_sound by simp
next
  case (One c)
  then obtain y t where "s = y # t" "in_cls c y" "k (y # acc) (Some y) t = Some x"
    by (auto split: list.splits if_splits)
  then show ?case by (intro exI [of _ "y # acc"] exI [of _ "Some y"] exI [of _ t]) simp
next
  case (Star c) then show ?case using star_sound by simp
next
  case (Plus c)
  then obtain y t where "s = y # t" and "star c (y # acc) (Some y) t k = Some x"
    by (auto split: list.splits if_splits)
  with star_sound [of c "y # acc" "Some y" t k x] show ?case by simp
next
  case (Lazy c) then show ?case using lazy_sound by simp
next
  case Wordb then show ?case by (auto split: if_splits)
next
  case (Seq a b)
  from Seq.prems have "mk a acc p s (\<lambda>acc' prev' s'. mk b acc' prev' s' k) = Some x" by simp
  from Seq.IH(1) [OF this] obtain acc1 p1 s1
    where 1: "mk b acc1 p1 s1 k = Some x" and 2: "rev acc1 @ s1 = rev acc @ s" by blast
  from Seq.IH(2) [OF 1] 2 show ?case by auto
next
  case (Alt a b)
  then show ?case by (auto split: option.splits)
next
  case (Opt a)
  then show ?case by (auto split: option.splits)
qed

lemma match_parts_sound:
  "match_parts rs p s = Some (gs, lc, rest) \<Longrightarrow> s = concat gs @ rest"
proof (induction rs arbitrary: p s gs lc rest)
  case Nil then show ?case by simp
next
  case (Cons r rs)
  from Cons.prems have "mk r [] p s
       (\<lambda>acc prev' s'.
          case match_parts rs prev' s' of
            None \<Rightarrow> None
          | Some (gs, last_char, rest) \<Rightarrow> Some (rev acc # gs, last_char, rest))
     = Some (gs, lc, rest)" by simp
  from mk_sound [OF this]
  obtain acc' p' s' where
    k: "(case match_parts rs p' s' of None \<Rightarrow> None
         | Some (gs, last_char, rest) \<Rightarrow> Some (rev acc' # gs, last_char, rest)) = Some (gs, lc, rest)"
    and e: "rev acc' @ s' = s" by auto
  from k obtain gs' where m: "match_parts rs p' s' = Some (gs', lc, rest)" and g: "gs = rev acc' # gs'"
    by (auto split: option.splits)
  from Cons.IH [OF m] e g show ?case by simp
qed

lemma search_sound:
  "search rs p s = Some (before, gs, lc, rest) \<Longrightarrow> s = before @ concat gs @ rest"
proof (induction s arbitrary: p before)
  case Nil
  then show ?case by (auto split: option.splits dest: match_parts_sound)
next
  case (Cons c t)
  then show ?case by (auto split: option.splits dest: match_parts_sound)
qed

text \<open>
  \<open>sub\<close> with a function as the replacement: every match, from left to right, each search
  starting where the last match ended. After an empty match one character is copied.
\<close>

function sub_all ::
  "re list \<Rightarrow> (string list \<Rightarrow> string) \<Rightarrow> char option \<Rightarrow> string \<Rightarrow> string" where
  "sub_all rs repl prev s =
     (case search rs prev s of
        None \<Rightarrow> s
      | Some (before, gs, last_char, rest) \<Rightarrow>
          before @ repl gs @
            (if concat gs = []
               then (case rest of [] \<Rightarrow> [] | c # t \<Rightarrow> c # sub_all rs repl (Some c) t)
             else sub_all rs repl last_char rest))"
  by pat_completeness auto
termination
proof (relation "measure (\<lambda>(rs, repl, prev, s). length s)")
  show "wf (measure (\<lambda>(rs, repl, prev, s). length s))"
    by simp
next
  fix rs :: "re list" and repl :: "string list \<Rightarrow> string" and prev s x2 before y gs ya last_char rest c t
  assume "search rs prev s = Some x2" "(before, y) = x2" "(gs, ya) = y" "(last_char, rest) = ya"
    "concat gs = []" "rest = c # t"
  then have "search rs prev s = Some (before, gs, last_char, c # t)" by simp
  from search_sound [OF this]
  show "((rs, repl, Some c, t), (rs, repl, prev, s)) \<in> measure (\<lambda>(rs, repl, prev, s). length s)"
    by simp
next
  fix rs :: "re list" and repl :: "string list \<Rightarrow> string" and prev s x2 before y gs ya last_char rest
  assume "search rs prev s = Some x2" "(before, y) = x2" "(gs, ya) = y" "(last_char, rest) = ya"
    "concat gs \<noteq> []"
  then have "search rs prev s = Some (before, gs, last_char, rest)" "concat gs \<noteq> []" by simp_all
  from search_sound [OF this(1)] this(2)
  show "((rs, repl, last_char, rest), (rs, repl, prev, s)) \<in> measure (\<lambda>(rs, repl, prev, s). length s)"
    by (cases "concat gs") auto
qed

section \<open>Replacement templates\<close>

text \<open>
  A string given to \<open>sub\<close> as the replacement is a template: \<open>re\<close> reads its backslash
  escapes before it substitutes. This is the reading for a pattern without groups, the
  only kind that the program gives a template to; the group names are read as Python 3.12
  and later read them. A character above U+007F is written as its two UTF-8 bytes.
\<close>

datatype tpart = TLit string | TMatch

definition octdigit :: "char \<Rightarrow> bool" where
  "octdigit c = (c \<in> set ''01234567'')"

definition digit :: "char \<Rightarrow> bool" where
  "digit c = (c \<in> set ''0123456789'')"

definition ascii_letter :: "char \<Rightarrow> bool" where
  "ascii_letter c = (c \<in> set ''abcdefghijklmnopqrstuvwxyzABCDEFGHIJKLMNOPQRSTUVWXYZ'')"

definition digit_val :: "char \<Rightarrow> nat" where
  "digit_val c = (case map_of (zip ''0123456789'' [0, 1, 2, 3, 4, 5, 6, 7, 8, 9]) c of
                    None \<Rightarrow> 0 | Some n \<Rightarrow> n)"

definition utf8_chr :: "nat \<Rightarrow> string" where
  "utf8_chr n = (if n < 128 then [char_of n] else [char_of (192 + n div 64), char_of (128 + n mod 64)])"

definition isidentifier :: "string \<Rightarrow> bool" where
  "isidentifier name =
     (case name of
        [] \<Rightarrow> False
      | c # cs \<Rightarrow> (ascii_letter c \<or> c = CHR ''_'')
                 \<and> list_all (\<lambda>x. ascii_letter x \<or> digit x \<or> x = CHR ''_'') cs)"

text \<open>What follows \<open>\g\<close>: only the whole match, group 0, can be named.\<close>

definition group_escape :: "string \<Rightarrow> error + (tpart \<times> string)" where
  "group_escape r =
     (case r of
        [] \<Rightarrow> Inl Re_error
      | b # r2 \<Rightarrow>
          if b \<noteq> CHR ''<'' then Inl Re_error
          else
            (let name = takeWhile (\<lambda>x. x \<noteq> CHR ''>'') r2;
                 after = dropWhile (\<lambda>x. x \<noteq> CHR ''>'') r2
             in if after = [] \<or> name = [] then Inl Re_error
                else if list_all digit name
                  then (if list_all (\<lambda>x. x = CHR ''0'') name then Inr (TMatch, tl after)
                        else Inl Re_error)
                else if isidentifier name then Inl Index_error
                else Inl Re_error))"

text \<open>What follows \<open>\0\<close>: at most two more octal digits.\<close>

definition zero_escape :: "string \<Rightarrow> error + (tpart \<times> string)" where
  "zero_escape r =
     (case r of
        [] \<Rightarrow> Inr (TLit [char_of (0::nat)], r)
      | o1 # r1 \<Rightarrow>
          if \<not> octdigit o1 then Inr (TLit [char_of (0::nat)], r)
          else
            (case r1 of
               [] \<Rightarrow> Inr (TLit [char_of (digit_val o1)], r1)
             | o2 # r2 \<Rightarrow>
                 if octdigit o2 then Inr (TLit [char_of (8 * digit_val o1 + digit_val o2)], r2)
                 else Inr (TLit [char_of (digit_val o1)], r1)))"

text \<open>
  What follows a backslash and a digit \<open>d\<close> from 1 to 9: three octal digits are a character;
  anything else is a reference to a group that the pattern does not have.
\<close>

definition digit_escape :: "char \<Rightarrow> string \<Rightarrow> error + (tpart \<times> string)" where
  "digit_escape d r =
     (case r of
        n1 # n2 # r2 \<Rightarrow>
          if octdigit d \<and> octdigit n1 \<and> octdigit n2
            then (let c = 64 * digit_val d + 8 * digit_val n1 + digit_val n2
                  in if 255 < c then Inl Re_error else Inr (TLit (utf8_chr c), r2))
          else Inl Re_error
      | _ \<Rightarrow> Inl Re_error)"

definition ESCAPES :: "(char \<times> char) list" where
  "ESCAPES = [(CHR ''a'', CHR 0x07), (CHR ''b'', CHR 0x08), (CHR ''f'', CHR 0x0C),
              (CHR ''n'', CHR 0x0A), (CHR ''r'', CHR 0x0D), (CHR ''t'', CHR 0x09),
              (CHR ''v'', CHR 0x0B), (CHR 0x5C, CHR 0x5C)]"

text \<open>The first item of a template that is not empty, and what is left of the template.\<close>

definition template_token :: "string \<Rightarrow> error + (tpart \<times> string)" where
  "template_token s =
     (case s of
        [] \<Rightarrow> Inl Re_error
      | c # rest \<Rightarrow>
          if c \<noteq> CHR 0x5C then Inr (TLit [c], rest)
          else
            (case rest of
               [] \<Rightarrow> Inl Re_error
             | d # r \<Rightarrow>
                 if d = CHR ''g'' then group_escape r
                 else if d = CHR ''0'' then zero_escape r
                 else if digit d then digit_escape d r
                 else
                   (case map_of ESCAPES d of
                      Some x \<Rightarrow> Inr (TLit [x], r)
                    | None \<Rightarrow> if ascii_letter d then Inl Re_error else Inr (TLit [c, d], r))))"

lemma group_escape_shorter: "group_escape r = Inr (p, rest) \<Longrightarrow> length rest < length r"
proof -
  assume a: "group_escape r = Inr (p, rest)"
  then obtain b r2 where r: "r = b # r2" by (cases r) (auto simp: group_escape_def)
  let ?after = "dropWhile (\<lambda>x. x \<noteq> CHR ''>'') r2"
  from a r have "?after \<noteq> []" and "rest = tl ?after"
    by (auto simp: group_escape_def Let_def split: if_splits)
  moreover have "length ?after \<le> length r2" by (rule length_dropWhile_le)
  ultimately show ?thesis using r by (cases ?after) auto
qed

lemma template_token_shorter: "template_token s = Inr (p, rest) \<Longrightarrow> length rest < length s"
  by (auto simp: template_token_def zero_escape_def digit_escape_def Let_def
      split: list.splits if_splits option.splits dest: group_escape_shorter)

function parse_template :: "string \<Rightarrow> error + tpart list" where
  "parse_template s =
     (if s = [] then Inr []
      else
        (case template_token s of
           Inl e \<Rightarrow> Inl e
         | Inr (p, rest) \<Rightarrow>
             (case parse_template rest of Inl e \<Rightarrow> Inl e | Inr ps \<Rightarrow> Inr (p # ps))))"
  by pat_completeness auto
termination
  by (relation "measure length") (auto dest: template_token_shorter)

definition expand_template :: "tpart list \<Rightarrow> string \<Rightarrow> string" where
  "expand_template ps whole = concat (map (\<lambda>p. case p of TLit t \<Rightarrow> t | TMatch \<Rightarrow> whole) ps)"

section \<open>The patterns of the program\<close>

definition RE_MAIN :: "re list" where
  \<open>RE_MAIN =
     [seq [Lit ''<main'', Star (Not_char CHR ''>''), Wordb, Lit ''class="'',
           Star (Not_char CHR 0x22), Wordb, Lit ''slide-body'', Wordb, Star (Not_char CHR 0x22),
           Lit ''"'', Star (Not_char CHR ''>''), Lit ''>''],
      Lazy Any,
      Lit ''</main>'']\<close>

definition RE_FOOTER :: "re list" where
  \<open>RE_FOOTER =
     [seq [Lit ''<footer'', Star (Not_char CHR ''>''), Wordb, Lit ''class="'',
           Star (Not_char CHR 0x22), Wordb, Lit ''slide-nav'', Wordb, Star (Not_char CHR 0x22),
           Lit ''"'', Star (Not_char CHR ''>''), Wordb, Lit ''data-auto-nav'', Wordb,
           Star (Not_char CHR ''>''), Lit ''>''],
      Lazy Any,
      Lit ''</footer>'']\<close>

definition RE_DECKJS :: "re list" where
  \<open>RE_DECKJS =
     [seq [Star Space, Lit ''<script'', Star (Not_char CHR ''>''), Wordb,
           Lit ''src="../assets/deck.js"'', Star (Not_char CHR ''>''), Lit ''>'',
           Star Space, Lit ''</script>'', Star Space]]\<close>

definition RE_AUTO_SCRIPTS :: "re list" where
  "RE_AUTO_SCRIPTS = [Lit AUTO_SCRIPTS_BEGIN, Lazy Any, Lit AUTO_SCRIPTS_END]"

definition RE_ANY_MATH_LOADER :: "re list" where
  \<open>RE_ANY_MATH_LOADER =
     [seq [Star Space, Lit ''<script'', Star (Not_char CHR ''>''), Wordb, Lit ''src="'',
           Star (Not_char CHR 0x22),
           Alt (Lit ''math-katex-setup.js'') (Lit ''math-mathjax-setup.js''),
           Opt (Seq (Lit ''?'') (Star (Not_char CHR 0x22))),
           Lit ''"'', Star (Not_char CHR ''>''), Lit ''>'',
           Star Space, Lit ''</script>'', Star Space]]\<close>

text \<open>The pattern that \<open>remove_script_tag_by_src\<close> builds for a candidate.\<close>

definition script_src_re :: "string \<Rightarrow> re list" where
  \<open>script_src_re cand =
     [seq [Star Space, Lit ''<script'', Star (Not_char CHR ''>''), Wordb, Lit ''src="'',
           Lit cand, Lit ''"'', Star (Not_char CHR ''>''), Lit ''>'',
           Star Space, Lit ''</script>'', Star Space]]\<close>

text \<open>The pattern of \<open>rewrite_img_srcs\<close>, with its three groups.\<close>

definition RE_IMG :: "re list" where
  \<open>RE_IMG =
     [seq [Lit ''<img'', Star (Not_char CHR ''>''), One Space, Lit ''src="''],
      Plus (Not_char CHR 0x22),
      Lit ''"'']\<close>
section \<open>Rewriting a slide\<close>

text \<open>
  The candidates are a set in the source, so the order of the two removals is not fixed
  there; here the declared specifier comes first.
\<close>

definition remove_script_tag_by_src :: "path \<Rightarrow> string \<Rightarrow> path \<Rightarrow> string \<Rightarrow> string" where
  "remove_script_tag_by_src root html slide_path raw_src =
     (let s = strip raw_src in
      if s = [] then html
      else
        (let candidates =
               remdups
                 (if \<not> (list_ex (startswith s) ABS_PREFIXES \<or> startswith s ''./''
                          \<or> startswith s ''../'')
                    then [s, resolve_script_src root slide_path s]
                  else [s])
         in foldl (\<lambda>h cand. sub_all (script_src_re cand) (\<lambda>gs. ''\<newline>'') None h)
              html candidates))"

definition upsert_auto_scripts :: "string \<Rightarrow> string \<Rightarrow> error + string" where
  \<open>upsert_auto_scripts html block =
     (case search RE_AUTO_SCRIPTS None html of
        Some (before, gs, last_char, rest) \<Rightarrow>
          (case parse_template block of
             Inl e \<Rightarrow> Inl e
           | Inr ps \<Rightarrow> Inr (before @ expand_template ps (concat gs) @ rest))
      | None \<Rightarrow>
          (if contains ''</body>'' (lower html)
             then (case search [Lit ''</body>''] None html of
                     Some (before, gs, last_char, rest) \<Rightarrow>
                       Inr (before @ ''\<newline>    '' @ block @ ''\<newline>  '' @ concat gs @ rest)
                   | None \<Rightarrow> Inr (html @ ''\<newline>'' @ block @ ''\<newline>''))
           else Inr (html @ ''\<newline>'' @ block @ ''\<newline>'')))\<close>

text \<open>The value \<open>nav_html\<close> of \<open>update_slide_file\<close>.\<close>

definition nav_html :: "path \<Rightarrow> path \<Rightarrow> path option \<Rightarrow> path option \<Rightarrow> nat \<Rightarrow> nat \<Rightarrow> string" where
  \<open>nav_html root slide_path prev_path next_path idx n_slides =
     (let prev_href = (case prev_path of None \<Rightarrow> ''#'' | Some p \<Rightarrow> rel_href slide_path p);
          next_href = (case next_path of None \<Rightarrow> ''#'' | Some p \<Rightarrow> rel_href slide_path p);
          index_href = rel_href slide_path (root @ [''index.html'']);
          nav_lines =
            [''      <a class="nav-prev" href="'' @ prev_href @ ''"''
               @ (case prev_path of None \<Rightarrow> '' aria-disabled="true"'' | Some p \<Rightarrow> [])
               @ ''>'' @ [CHR 0xE2, CHR 0x80, CHR 0xB9] @ '' Prev</a>'',
             ''      <a class="nav-index" href="'' @ index_href @ ''">Index</a>'',
             ''      <a class="nav-next" href="'' @ next_href @ ''"''
               @ (case next_path of None \<Rightarrow> '' aria-disabled="true"'' | Some p \<Rightarrow> [])
               @ ''>Next '' @ [CHR 0xE2, CHR 0x80, CHR 0xBA] @ ''</a>'',
             ''      <span class="nav-counter">'' @ dec_nat idx @ ''/'' @ dec_nat n_slides
               @ ''</span>'']
      in ''\<newline>'' @ join ''\<newline>'' nav_lines @ ''\<newline>    '')\<close>

text \<open>The footer step: the check for a footer region, and the rewrite of every one.\<close>

definition rewrite_footer :: "path \<Rightarrow> string \<Rightarrow> string \<Rightarrow> error + string" where
  "rewrite_footer slide_path nav html =
     (if search RE_FOOTER None html = None then Inl (Missing_footer slide_path)
      else Inr (sub_all RE_FOOTER (\<lambda>gs. hd gs @ nav @ last gs) None html))"

text \<open>What \<open>update_slide_file\<close> makes of the text of the slide file.\<close>

definition update_slide_text ::
  "path \<Rightarrow> path \<Rightarrow> path option \<Rightarrow> path option \<Rightarrow> nat \<Rightarrow> nat \<Rightarrow>
   (string \<times> json) list \<Rightarrow> Slide \<Rightarrow> string \<Rightarrow> error + string" where
  "update_slide_text root slide_path prev_path next_path idx n_slides deck_math_cfg slide html =
     (let html1 = sub_all RE_DECKJS (\<lambda>gs. ''\<newline>'') None html;
          html2 = sub_all RE_ANY_MATH_LOADER (\<lambda>gs. ''\<newline>'') None html1;
          html3 = foldl (\<lambda>h sp. remove_script_tag_by_src root h slide_path (src sp))
                    html2 (scripts slide)
      in case rewrite_footer slide_path
                (nav_html root slide_path prev_path next_path idx n_slides) html3 of
           Inl e \<Rightarrow> Inl e
         | Inr html4 \<Rightarrow>
             (case build_auto_scripts_block root slide_path deck_math_cfg slide of
                Inl e \<Rightarrow> Inl e
              | Inr block \<Rightarrow> upsert_auto_scripts html4 block))"

text \<open>The files: the text of each path that is a file.\<close>

type_synonym files = "path \<Rightarrow> string option"

definition update_slide_file ::
  "path \<Rightarrow> path \<Rightarrow> path option \<Rightarrow> path option \<Rightarrow> nat \<Rightarrow> nat \<Rightarrow>
   (string \<times> json) list \<Rightarrow> Slide \<Rightarrow> files \<Rightarrow> error + files" where
  "update_slide_file root slide_path prev_path next_path idx n_slides deck_math_cfg slide fs =
     (case fs slide_path of
        None \<Rightarrow> Inl (File_not_found slide_path)
      | Some html \<Rightarrow>
          (case update_slide_text root slide_path prev_path next_path idx n_slides
                  deck_math_cfg slide html of
             Inl e \<Rightarrow> Inl e
           | Inr html' \<Rightarrow> Inr (fs(slide_path \<mapsto> html'))))"

section \<open>The index page and the print page\<close>

text \<open>\<open>enumerate(xs, start=1)\<close>.\<close>

definition enumerate1 :: "'a list \<Rightarrow> (nat \<times> 'a) list" where
  "enumerate1 xs = zip [1..<Suc (length xs)] xs"

definition rstrip :: "string \<Rightarrow> string" where
  "rstrip s = rev (dropWhile isspace (rev s))"

definition rewrite_img_srcs :: "string \<Rightarrow> path \<Rightarrow> string" where
  "rewrite_img_srcs body_html slide_path =
     sub_all RE_IMG
       (\<lambda>gs. case gs of
               [before, src_text, after] \<Rightarrow>
                 (let s = strip src_text in
                  if s = [] \<or> list_ex (startswith s) ABS_PREFIXES then concat gs
                  else before @ normpath (posix_join (as_posix (parent slide_path)) s) @ after)
             | _ \<Rightarrow> concat gs)
       None body_html"

definition index_html :: "string \<Rightarrow> string \<Rightarrow> Slide list \<Rightarrow> string" where
  \<open>index_html deck_title theme_href slides =
     (let items =
            map (\<lambda>(i, s). ''        <li><a href="'' @ slide_file s @ ''">'' @ dec_nat i @ ''. ''
                            @ title s @ ''</a></li>'')
              (enumerate1 slides)
      in ''<!doctype html>\<newline>''
         @ ''<html lang="en">\<newline>''
         @ ''<head>\<newline>''
         @ ''  <meta charset="utf-8" />\<newline>''
         @ ''  <meta name="viewport" content="width=device-width,initial-scale=1" />\<newline>''
         @ ''  <title>''
         @ deck_title
         @ ''</title>\<newline>''
         @ ''  <link rel="stylesheet" href="assets/base.css" />\<newline>''
         @ ''  <link rel="stylesheet" href="''
         @ theme_href
         @ ''" />\<newline>''
         @ ''</head>\<newline>''
         @ ''<body>\<newline>''
         @ ''  <div class="slide">\<newline>''
         @ ''    <header class="slide-header">\<newline>''
         @ ''      <h1 class="slide-title">''
         @ deck_title
         @ ''</h1>\<newline>''
         @ ''      <hr />\<newline>''
         @ ''    </header>\<newline>''
         @ ''    <main class="slide-body">\<newline>''
         @ ''      <div><a href="print.html">Experimental: Single page for printing (most interactivity disabled, figure/font sizing/placement not preserved).</a></div>\<newline>''
         @ ''      <h2>Table of Contents</h2>\<newline>''
         @ ''      <ul class = "bullets" style="list-style-type: none;">\<newline>''
         @ join ''\<newline>'' items
         @ ''\<newline>''
         @ ''      </ul>\<newline>''
         @ ''    </main>\<newline>''
         @ ''  </div>\<newline>''
         @ ''</body>\<newline>''
         @ ''</html>\<newline>'')\<close>

definition build_index :: "path \<Rightarrow> string \<Rightarrow> string \<Rightarrow> Slide list \<Rightarrow> files \<Rightarrow> files" where
  "build_index root deck_title theme_href slides fs =
     fs(root @ [''index.html''] \<mapsto> index_html deck_title theme_href slides)"

text \<open>One section of the print page, for slide \<open>s\<close> at position \<open>i\<close>.\<close>

definition print_section :: "path \<Rightarrow> files \<Rightarrow> nat \<Rightarrow> Slide \<Rightarrow> error + string" where
  \<open>print_section root fs i s =
     (let slide_path = path_div root (slide_file s) in
      case fs slide_path of
        None \<Rightarrow> Inl (File_not_found slide_path)
      | Some slide_text \<Rightarrow>
          (case search RE_MAIN None slide_text of
             None \<Rightarrow> Inl (Missing_main (slide_file s))
           | Some (before, gs, last_char, rest) \<Rightarrow>
               (let body = rewrite_img_srcs (gs ! 1) slide_path
                in Inr (rstrip
                         (''\<newline>''
             @ ''    <section class="print-slide">\<newline>''
             @ ''      <header class="print-header">\<newline>''
             @ ''        <h2 class="print-title">''
             @ dec_nat i
             @ ''. ''
             @ title s
             @ ''</h2>\<newline>''
             @ ''      </header>\<newline>''
             @ ''      <div class="print-body">\<newline>''
             @ body
             @ ''\<newline>''
             @ ''      </div>\<newline>''
             @ ''    </section>\<newline>'')))))\<close>

fun print_sections :: "path \<Rightarrow> files \<Rightarrow> (nat \<times> Slide) list \<Rightarrow> error + string list" where
  "print_sections root fs [] = Inr []"
| "print_sections root fs ((i, s) # rest) =
     (case print_section root fs i s of
        Inl e \<Rightarrow> Inl e
      | Inr sec \<Rightarrow>
          (case print_sections root fs rest of Inl e \<Rightarrow> Inl e | Inr secs \<Rightarrow> Inr (sec # secs)))"

definition build_print ::
  "path \<Rightarrow> string \<Rightarrow> string \<Rightarrow> (string \<times> json) list \<Rightarrow> Slide list \<Rightarrow> files \<Rightarrow> error + files" where
  \<open>build_print root deck_title theme_href deck_math_cfg slides fs =
     (case print_sections root fs (enumerate1 slides) of
        Inl e \<Rightarrow> Inl e
      | Inr sections \<Rightarrow>
          (case choose_print_math_engine deck_math_cfg slides of
             Inl e \<Rightarrow> Inl e
           | Inr engine \<Rightarrow>
               Inr (fs(root @ [''print.html''] \<mapsto>
                 ''<!doctype html>\<newline>''
                 @ ''<html lang="en">\<newline>''
                 @ ''<head>\<newline>''
                 @ ''  <meta charset="utf-8" />\<newline>''
                 @ ''  <meta name="viewport" content="width=device-width,initial-scale=1" />\<newline>''
                 @ ''  <title>Print ''
                 @ [CHR 0xE2, CHR 0x80, CHR 0x94]
                 @ '' ''
                 @ deck_title
                 @ ''</title>\<newline>''
                 @ ''  <link rel="stylesheet" href="assets/base.css" />\<newline>''
                 @ ''  <link rel="stylesheet" href="''
                 @ theme_href
                 @ ''" />\<newline>''
                 @ ''  <link rel="stylesheet" href="assets/print.css" />\<newline>''
                 @ ''</head>\<newline>''
                 @ ''<body>\<newline>''
                 @ ''  <main class="print-deck">\<newline>''
                 @ ''    <header class="print-cover">\<newline>''
                 @ ''      <h1 class="slide-title">''
                 @ deck_title
                 @ ''</h1>\<newline>''
                 @ ''      <p class="muted">Generated by <code>build_deck.py</code>. Use your browser''
                 @ [CHR 0xE2, CHR 0x80, CHR 0x99]
                 @ ''s Print dialog.</p>\<newline>''
                 @ ''    </header>\<newline>''
                 @ join ''\<newline>'' sections
                 @ ''\<newline>''
                 @ ''  </main>\<newline>''
                 @ ''\<newline>''
                 @ print_math_script engine
                 @ ''</body>\<newline>''
                 @ ''</html>\<newline>''))))\<close>

section \<open>The build\<close>

text \<open>
  How a build ends, and the files it leaves: they are those written up to the point where
  it stopped.
\<close>

datatype outcome = Done files | Aborted error files

text \<open>The loop of \<open>main\<close> over the positions \<open>i\<close> that are still to do.\<close>

fun update_slides ::
  "path \<Rightarrow> (string \<times> json) list \<Rightarrow> Slide list \<Rightarrow> nat list \<Rightarrow> files \<Rightarrow> outcome" where
  "update_slides root deck_math_cfg slides [] fs = Done fs"
| "update_slides root deck_math_cfg slides (i # todo) fs =
     (let s = slides ! (i - 1);
          slide_path = path_div root (slide_file s)
      in if fs slide_path = None then Aborted (Missing_slide_file (slide_file s)) fs
         else
           (let prev_path =
                  (if 1 < i then Some (path_div root (slide_file (slides ! (i - 2)))) else None);
                next_path =
                  (if i < length slides then Some (path_div root (slide_file (slides ! i)))
                   else None)
            in case update_slide_file root slide_path prev_path next_path i (length slides)
                      deck_math_cfg s fs of
                 Inl e \<Rightarrow> Aborted e fs
               | Inr fs' \<Rightarrow> update_slides root deck_math_cfg slides todo fs'))"

text \<open>
  \<open>main\<close>, from what \<open>read_manifest\<close> returns: the title, the theme, the math
  configuration and the slides.
\<close>

definition main ::
  "path \<Rightarrow> string \<Rightarrow> string \<Rightarrow> (string \<times> json) list \<Rightarrow> Slide list \<Rightarrow> files \<Rightarrow> outcome" where
  "main root deck_title theme deck_math_cfg slides fs =
     (case update_slides root deck_math_cfg slides [1..<Suc (length slides)] fs of
        Aborted e fs' \<Rightarrow> Aborted e fs'
      | Done fs1 \<Rightarrow>
          (let fs2 = build_index root deck_title theme slides fs1
           in case build_print root deck_title theme deck_math_cfg slides fs2 of
                Inl e \<Rightarrow> Aborted e fs2
              | Inr fs3 \<Rightarrow> Done fs3))"

section \<open>The regions that a pattern matches\<close>

text \<open>
  The matches that \<open>sub\<close> goes through, as \<open>finditer\<close> lists them: for each match the text
  between the last match and this one, the parts of the match, and the character copied
  after it when the match is empty; then the text after the last match.
\<close>

function find_all ::
  "re list \<Rightarrow> char option \<Rightarrow> string \<Rightarrow> (string \<times> string list \<times> string) list \<times> string" where
  "find_all rs prev s =
     (case search rs prev s of
        None \<Rightarrow> ([], s)
      | Some (before, gs, last_char, rest) \<Rightarrow>
          (if concat gs = []
             then (case rest of
                     [] \<Rightarrow> ([(before, gs, [])], [])
                   | c # t \<Rightarrow>
                       (case find_all rs (Some c) t of
                          (found, tail) \<Rightarrow> ((before, gs, [c]) # found, tail)))
           else (case find_all rs last_char rest of
                   (found, tail) \<Rightarrow> ((before, gs, []) # found, tail))))"
  by pat_completeness auto
termination
proof (relation "measure (\<lambda>(rs, prev, s). length s)")
  show "wf (measure (\<lambda>(rs, prev, s). length s))"
    by simp
next
  fix rs :: "re list" and prev s x2 before y gs ya last_char rest c t
  assume "search rs prev s = Some x2" "(before, y) = x2" "(gs, ya) = y" "(last_char, rest) = ya"
    "concat gs = []" "rest = c # t"
  then have "search rs prev s = Some (before, gs, last_char, c # t)" by simp
  from search_sound [OF this]
  show "((rs, Some c, t), (rs, prev, s)) \<in> measure (\<lambda>(rs, prev, s). length s)"
    by simp
next
  fix rs :: "re list" and prev s x2 before y gs ya last_char rest
  assume "search rs prev s = Some x2" "(before, y) = x2" "(gs, ya) = y" "(last_char, rest) = ya"
    "concat gs \<noteq> []"
  then have "search rs prev s = Some (before, gs, last_char, rest)" "concat gs \<noteq> []" by simp_all
  from search_sound [OF this(1)] this(2)
  show "((rs, last_char, rest), (rs, prev, s)) \<in> measure (\<lambda>(rs, prev, s). length s)"
    by (cases "concat gs") auto
qed

section \<open>Properties\<close>

subsection \<open>Auxiliary facts\<close>

lemma strip_Nil [simp]: "strip [] = []"
  by (simp add: strip_def)

lemma lower_Nil [simp]: "lower [] = []"
  by (simp add: lower_def)


subsection \<open>Math engine aliases\<close>




subsection \<open>Math engine of the print page\<close>



subsection \<open>Relative paths between clean paths\<close>
















subsection \<open>Resolution of script specifiers\<close>





subsection \<open>Math engine of a slide\<close>







subsection \<open>Shapes of script declarations\<close>

lemma script_entry_valid: "valid_entry v \<Longrightarrow> \<exists>sp. script_entry v = Inr sp"
  by (cases v) (auto split: json.splits)

lemma script_entry_invalid: "\<not> valid_entry v \<Longrightarrow> script_entry v = Inl (Invalid_script_entry v)"
  by (cases v) (auto split: json.splits)

lemma script_entries_valid:
  "list_all valid_entry es \<Longrightarrow>
   \<exists>out. script_entries es = Inr out \<and> map Inr out = map script_entry es"
proof (induction es)
  case Nil
  then show ?case by simp
next
  case (Cons e es)
  then obtain sp out where "script_entry e = Inr sp" "script_entries es = Inr out"
    "map Inr out = map script_entry es"
    using script_entry_valid [of e] by auto
  then show ?case by simp
qed

lemma script_entries_invalid:
  "list_all valid_entry pre \<Longrightarrow> \<not> valid_entry bad \<Longrightarrow>
   script_entries (pre @ bad # post) = Inl (Invalid_script_entry bad)"
proof (induction pre)
  case Nil
  then show ?case by (simp add: script_entry_invalid)
next
  case (Cons e es)
  then obtain sp where "script_entry e = Inr sp"
    using script_entry_valid [of e] by auto
  with Cons show ?case by simp
qed

text \<open>
  C8, as stated, fails: the shapes accepted are more than three. A \<open>scripts\<close> value that is
  a bare string, not a list, is accepted as one script.
\<close>

theorem scripts_string_counterexample:
  "normalize_scripts [(''file'', JStr ''a.html''), (''scripts'', JStr ''x.js'')]
     = Inr [\<lparr>src = ''x.js'', type = JNull, defer_attr = False, async_attr = False\<rparr>]"
  by code_simp

text \<open>
  C8, amended. The entries examined are: the \<open>scripts\<close> list; or, when \<open>scripts\<close> is neither
  a list nor null, that one value as the only entry; or, when \<open>scripts\<close> is absent or null,
  the legacy \<open>script\<close> value as the only entry if it is true-ish, and no entry otherwise.
  When every entry is a string or an object with a string \<open>src\<close>, the declaration is
  accepted, with one script per entry, in order. Otherwise the build stops with the
  invalid-entry error, which names the first entry that is neither.
\<close>

theorem normalize_scripts_shapes:
  "(dict_get item ''scripts'' = JArr xs \<longrightarrow> raw_scripts item = xs)
   \<and> (dict_get item ''scripts'' = v \<and> v \<noteq> JNull \<and> (\<forall>xs. v \<noteq> JArr xs)
        \<longrightarrow> raw_scripts item = [v])
   \<and> (dict_get item ''scripts'' = JNull \<and> truthy (dict_get item ''script'')
        \<longrightarrow> raw_scripts item = [dict_get item ''script''])
   \<and> (dict_get item ''scripts'' = JNull \<and> \<not> truthy (dict_get item ''script'')
        \<longrightarrow> raw_scripts item = [])
   \<and> (list_all valid_entry (raw_scripts item)
        \<longrightarrow> (\<exists>out. normalize_scripts item = Inr out
                  \<and> map Inr out = map script_entry (raw_scripts item)))
   \<and> (raw_scripts item = pre @ bad # post \<and> list_all valid_entry pre \<and> \<not> valid_entry bad
        \<longrightarrow> normalize_scripts item = Inl (Invalid_script_entry bad))"
proof (intro conjI impI)
  assume "dict_get item ''scripts'' = v \<and> v \<noteq> JNull \<and> (\<forall>xs. v \<noteq> JArr xs)"
  then show "raw_scripts item = [v]"
    by (cases v) (auto simp: raw_scripts_def)
qed (auto simp: raw_scripts_def normalize_scripts_def script_entries_valid script_entries_invalid)

theorem normalize_scripts_shapes_witness:
  "normalize_scripts
     [(''file'', JStr ''a.html''),
      (''scripts'', JArr [JStr ''a.js'', JNum 5, JObj [(''src'', JStr ''b.js'')]])]
     = Inl (Invalid_script_entry (JNum 5))
   \<and> normalize_scripts [(''file'', JStr ''a.html''), (''script'', JArr [JStr ''a.js''])]
     = Inl (Invalid_script_entry (JArr [JStr ''a.js'']))"
proof -
  let ?i1 = "[(''file'', JStr ''a.html''),
      (''scripts'', JArr [JStr ''a.js'', JNum 5, JObj [(''src'', JStr ''b.js'')]])]"
  let ?i2 = "[(''file'', JStr ''a.html''), (''script'', JArr [JStr ''a.js''])]"
  have a: "raw_scripts ?i1 = [JStr ''a.js''] @ JNum 5 # [JObj [(''src'', JStr ''b.js'')]]
      \<and> list_all valid_entry [JStr ''a.js''] \<and> \<not> valid_entry (JNum 5)"
    by code_simp
  have b: "raw_scripts ?i2 = [] @ JArr [JStr ''a.js''] # []
      \<and> list_all valid_entry [] \<and> \<not> valid_entry (JArr [JStr ''a.js''])"
    by code_simp
  have "normalize_scripts ?i1 = Inl (Invalid_script_entry (JNum 5))"
    using normalize_scripts_shapes
      [of ?i1 _ _ "[JStr ''a.js'']" "JNum 5" "[JObj [(''src'', JStr ''b.js'')]]",
        THEN conjunct2, THEN conjunct2, THEN conjunct2, THEN conjunct2, THEN conjunct2,
        THEN mp, OF a] .
  moreover have "normalize_scripts ?i2 = Inl (Invalid_script_entry (JArr [JStr ''a.js'']))"
    using normalize_scripts_shapes
      [of ?i2 _ _ "[]" "JArr [JStr ''a.js'']" "[]",
        THEN conjunct2, THEN conjunct2, THEN conjunct2, THEN conjunct2, THEN conjunct2,
        THEN mp, OF b] .
  ultimately show ?thesis by simp
qed

subsection \<open>A slide file that does not exist\<close>







end
